theory Spec2Isabelle
  imports Main
begin

section \<open>Python values used by the inference recommender mixin\<close>

text \<open>
  The module \<^verbatim>\<open>sagemaker/inference_recommender/inference_recommender_mixin.py\<close>
  shapes keyword parameters into JSON-like fragments. A fragment is a Python value built
  from \<^verbatim>\<open>None\<close>, integers, strings, lists and dicts; a dict is an association
  list in insertion order (a well-formed dict has distinct keys).
\<close>

datatype json =
    JNull
  | JBool bool
  | JInt int
  | JStr string
  | JList "json list"
  | JDict "(string \<times> json) list"

text \<open>The exceptions the module raises itself or lets escape.\<close>

datatype error =
    ValueError string
  | TypeError string
  | IndexError string
  | KeyError string
  | AttributeError string
  | RemoteError string

text \<open>Records written by \<^verbatim>\<open>LOGGER.info\<close> and \<^verbatim>\<open>LOGGER.warning\<close>.\<close>

datatype log_record = Info string | Warning string

subsection \<open>Truth value testing\<close>

text \<open>
  Python's \<^verbatim>\<open>if x\<close> and \<^verbatim>\<open>not x\<close>: \<^verbatim>\<open>None\<close>, \<^verbatim>\<open>False\<close>,
  zero, the empty string, the empty list and the empty dict are false; everything else
  is true. An optional parameter is \<open>None\<close> when the caller left it at its default.
\<close>

fun truthy :: "json \<Rightarrow> bool" where
  "truthy JNull = False"
| "truthy (JBool b) = b"
| "truthy (JInt n) = (n \<noteq> 0)"
| "truthy (JStr s) = (s \<noteq> [])"
| "truthy (JList xs) = (xs \<noteq> [])"
| "truthy (JDict kvs) = (kvs \<noteq> [])"

fun truthy_int :: "int option \<Rightarrow> bool" where
  "truthy_int None = False"
| "truthy_int (Some n) = (n \<noteq> 0)"

fun truthy_str :: "string option \<Rightarrow> bool" where
  "truthy_str None = False"
| "truthy_str (Some s) = (s \<noteq> [])"

fun truthy_list :: "'a list option \<Rightarrow> bool" where
  "truthy_list None = False"
| "truthy_list (Some xs) = (xs \<noteq> [])"

text \<open>
  An instance of a class that defines neither \<^verbatim>\<open>__bool__\<close> nor
  \<^verbatim>\<open>__len__\<close> is always true.
\<close>

fun truthy_obj :: "'a option \<Rightarrow> bool" where
  "truthy_obj None = False"
| "truthy_obj (Some x) = True"

text \<open>An optional integer or string as the value Python holds for it.\<close>

fun py_int :: "int option \<Rightarrow> json" where
  "py_int None = JNull"
| "py_int (Some n) = JInt n"

fun py_str :: "string option \<Rightarrow> json" where
  "py_str None = JNull"
| "py_str (Some s) = JStr s"

subsection \<open>Dict operations\<close>

text \<open>\<^verbatim>\<open>d.get(k, default)\<close>.\<close>

definition dict_get :: "('k \<times> 'v) list \<Rightarrow> 'k \<Rightarrow> 'v option \<Rightarrow> 'v option" where
  "dict_get d k dflt = (case map_of d k of None \<Rightarrow> dflt | Some v \<Rightarrow> Some v)"

text \<open>\<^verbatim>\<open>d.pop(k)\<close>: the value and the dict without the key, or KeyError.\<close>

definition dict_pop :: "string \<Rightarrow> (string \<times> 'v) list \<Rightarrow> error + ('v \<times> (string \<times> 'v) list)" where
  "dict_pop k d =
     (case map_of d k of
        None \<Rightarrow> Inl (KeyError k)
      | Some v \<Rightarrow> Inr (v, filter (\<lambda>kv. fst kv \<noteq> k) d))"

text \<open>\<^verbatim>\<open>d[k] = v\<close>: an existing key keeps its place, a new key goes last.\<close>

definition dict_set :: "string \<Rightarrow> 'v \<Rightarrow> (string \<times> 'v) list \<Rightarrow> (string \<times> 'v) list" where
  "dict_set k v d =
     (if k \<in> fst ` set d
      then map (\<lambda>kv. if fst kv = k then (k, v) else kv) d
      else d @ [(k, v)])"

text \<open>\<^verbatim>\<open>x[k]\<close> for a string key and \<^verbatim>\<open>x[0]\<close>, on any value.\<close>

fun subscript_key :: "json \<Rightarrow> string \<Rightarrow> error + json" where
  "subscript_key (JDict kvs) k =
     (case map_of kvs k of None \<Rightarrow> Inl (KeyError k) | Some v \<Rightarrow> Inr v)"
| "subscript_key (JList xs) k = Inl (TypeError ''list indices must be integers or slices, not str'')"
| "subscript_key (JStr s) k = Inl (TypeError ''string indices must be integers'')"
| "subscript_key v k = Inl (TypeError ''object is not subscriptable'')"

fun subscript_0 :: "json \<Rightarrow> error + json" where
  "subscript_0 (JList []) = Inl (IndexError ''list index out of range'')"
| "subscript_0 (JList (x # xs)) = Inr x"
| "subscript_0 (JStr []) = Inl (IndexError ''string index out of range'')"
| "subscript_0 (JStr (c # cs)) = Inr (JStr [c])"
| "subscript_0 (JDict kvs) = Inl (KeyError ''0'')"
| "subscript_0 v = Inl (TypeError ''object is not subscriptable'')"

section \<open>Value objects\<close>

text \<open>
  \<^verbatim>\<open>Phase(duration_in_seconds, initial_number_of_users, spawn_rate)\<close> and
  \<^verbatim>\<open>ModelLatencyThreshold(percentile, value_in_milliseconds)\<close> keep nothing but
  their wire form \<^verbatim>\<open>to_json\<close>, computed by the constructor.
\<close>

record Phase =
  duration_in_seconds :: int
  initial_number_of_users :: int
  spawn_rate :: int

definition Phase_to_json :: "Phase \<Rightarrow> json" where
  "Phase_to_json p =
     JDict [(''DurationInSeconds'', JInt (duration_in_seconds p)),
            (''InitialNumberOfUsers'', JInt (initial_number_of_users p)),
            (''SpawnRate'', JInt (spawn_rate p))]"

record ModelLatencyThreshold =
  percentile :: string
  value_in_milliseconds :: int

definition ModelLatencyThreshold_to_json :: "ModelLatencyThreshold \<Rightarrow> json" where
  "ModelLatencyThreshold_to_json t =
     JDict [(''Percentile'', JStr (percentile t)),
            (''ValueInMilliseconds'', JInt (value_in_milliseconds t))]"

text \<open>
  Modelled from the spec: \<^verbatim>\<open>CategoricalParameter\<close> of \<^verbatim>\<open>sagemaker.parameter\<close>,
  which the module imports and whose source is not part of it. The spec calls it a named
  variable with an enumerated set of candidate values, turned into a range descriptor
  with a name and the list of values; the module reads its attribute \<^verbatim>\<open>values\<close>
  and calls \<^verbatim>\<open>as_json_range(name)\<close>, from whose result it pops the key
  \<^verbatim>\<open>Values\<close>. The candidate values are strings and are kept as they are.
\<close>

record CategoricalParameter =
  cp_values :: "string list"

definition as_json_range :: "CategoricalParameter \<Rightarrow> string \<Rightarrow> (string \<times> json) list" where
  "as_json_range param name =
     [(''Name'', JStr name), (''Values'', JList (map JStr (cp_values param)))]"

section \<open>The parameter translators\<close>

subsection \<open>Endpoint configurations\<close>

type_synonym parameter_range = "(string \<times> CategoricalParameter) list"

text \<open>
  The innermost loop, \<^verbatim>\<open>for name, param in parameter_range.items()\<close>, appends
  one descriptor to \<^verbatim>\<open>parameter_ranges\<close> per item.
\<close>

fun parameter_ranges_loop :: "parameter_range \<Rightarrow> json list \<Rightarrow> error + json list" where
  "parameter_ranges_loop [] parameter_ranges = Inr parameter_ranges"
| "parameter_ranges_loop ((name, param) # items) parameter_ranges =
     (case dict_pop ''Values'' (as_json_range param name) of
        Inl e \<Rightarrow> Inl e
      | Inr (v, as_json) \<Rightarrow>
          parameter_ranges_loop items (parameter_ranges @ [JDict (dict_set ''Value'' v as_json)]))"

text \<open>
  The middle loop, \<^verbatim>\<open>for instance_type in instance_types\<close>, appends one
  configuration to \<^verbatim>\<open>endpoint_configurations_to_json\<close> per instance type.
\<close>

fun instance_types_loop :: "string list \<Rightarrow> parameter_range \<Rightarrow> json list \<Rightarrow> error + json list" where
  "instance_types_loop [] parameter_range acc = Inr acc"
| "instance_types_loop (instance_type # rest) parameter_range acc =
     (case parameter_ranges_loop parameter_range [] of
        Inl e \<Rightarrow> Inl e
      | Inr parameter_ranges \<Rightarrow>
          instance_types_loop rest parameter_range
            (acc @ [JDict [(''EnvironmentParameterRanges'',
                              JDict [(''CategoricalParameterRanges'', JList parameter_ranges)]),
                           (''InstanceType'', JStr instance_type)]]))"

text \<open>
  The outer loop, \<^verbatim>\<open>for parameter_range in hyperparameter_ranges\<close>. The test
  \<^verbatim>\<open>not parameter_range.get("instance_types")\<close> is on an object or
  \<^verbatim>\<open>None\<close>.
\<close>

fun hyperparameter_ranges_loop :: "parameter_range list \<Rightarrow> json list \<Rightarrow> error + json list" where
  "hyperparameter_ranges_loop [] acc = Inr acc"
| "hyperparameter_ranges_loop (parameter_range # rest) acc =
     (if \<not> truthy_obj (map_of parameter_range ''instance_types'')
      then Inl (ValueError ''instance_type must be defined as a hyperparameter_range'')
      else
        (case dict_pop ''instance_types'' parameter_range of
           Inl e \<Rightarrow> Inl e
         | Inr (param, parameter_range') \<Rightarrow>
             (case instance_types_loop (cp_values param) parameter_range' acc of
                Inl e \<Rightarrow> Inl e
              | Inr acc' \<Rightarrow> hyperparameter_ranges_loop rest acc')))"

definition convert_to_endpoint_configurations_json ::
  "parameter_range list option \<Rightarrow> error + json" where
  "convert_to_endpoint_configurations_json hyperparameter_ranges =
     (if \<not> truthy_list hyperparameter_ranges then Inr JNull
      else
        (case hyperparameter_ranges_loop (case hyperparameter_ranges of Some hr \<Rightarrow> hr | None \<Rightarrow> []) [] of
           Inl e \<Rightarrow> Inl e
         | Inr endpoint_configurations_to_json \<Rightarrow> Inr (JList endpoint_configurations_to_json)))"

subsection \<open>Traffic pattern\<close>

definition convert_to_traffic_pattern_json :: "string option \<Rightarrow> Phase list option \<Rightarrow> json" where
  "convert_to_traffic_pattern_json traffic_type phases =
     (if \<not> truthy_list phases then JNull
      else JDict [(''Phases'', JList (map Phase_to_json (case phases of Some ps \<Rightarrow> ps | None \<Rightarrow> []))),
                  (''TrafficType'', if truthy_str traffic_type then py_str traffic_type else JStr ''PHASES'')])"

subsection \<open>Resource limit\<close>

definition convert_to_resource_limit_json :: "int option \<Rightarrow> int option \<Rightarrow> json" where
  "convert_to_resource_limit_json max_tests max_parallel_tests =
     (if \<not> truthy_int max_tests \<and> \<not> truthy_int max_parallel_tests then JNull
      else JDict [(''MaxNumberOfTests'', py_int max_tests),
                  (''MaxParallelOfTests'', py_int max_parallel_tests)])"

subsection \<open>Stopping conditions\<close>

text \<open>
  The list comprehension iterates \<^verbatim>\<open>model_latency_thresholds\<close> whenever the
  guard lets the call through; iterating \<^verbatim>\<open>None\<close> raises TypeError.
\<close>

definition convert_to_stopping_conditions_json ::
  "int option \<Rightarrow> ModelLatencyThreshold list option \<Rightarrow> error + json" where
  "convert_to_stopping_conditions_json max_invocations model_latency_thresholds =
     (if \<not> truthy_int max_invocations \<and> \<not> truthy_list model_latency_thresholds then Inr JNull
      else
        (case model_latency_thresholds of
           None \<Rightarrow> Inl (TypeError ''NoneType object is not iterable'')
         | Some thresholds \<Rightarrow>
             Inr (JDict [(''MaxInvocations'', py_int max_invocations),
                         (''ModelLatencyThresholds'',
                            JList (map ModelLatencyThreshold_to_json thresholds))])))"

section \<open>The caller and the external session\<close>

text \<open>
  What \<^verbatim>\<open>create_inference_recommendations_job\<close> receives: the fourteen keyword
  arguments of the call in \<^verbatim>\<open>right_size\<close>.
\<close>

record job_request =
  req_role :: "string option"
  req_job_name :: "string option"
  req_job_type :: string
  req_job_duration_in_seconds :: "int option"
  req_model_package_version_arn :: "string option"
  req_framework :: "string option"
  req_framework_version :: "string option"
  req_sample_payload_url :: "string option"
  req_supported_content_types :: "string list option"
  req_supported_instance_types :: "string list option"
  req_endpoint_configurations :: json
  req_traffic_pattern :: json
  req_stopping_conditions :: json
  req_resource_limit :: json

text \<open>
  The session is an external collaborator: its two operations are parameters of the
  model, each returning a value or raising. A call to either is recorded in the world.
\<close>

record Session =
  create_inference_recommendations_job :: "job_request \<Rightarrow> error + string"
  wait_for_inference_recommendations_job :: "string \<Rightarrow> string option \<Rightarrow> error + json"

datatype session_call =
    CreateJob job_request
  | WaitForJob string "string option"

text \<open>
  The caller (\<^verbatim>\<open>self\<close>), as far as the mixin reads or writes it:
  \<open>is_ModelPackage\<close> is \<^verbatim>\<open>isinstance(self, sagemaker.model.ModelPackage)\<close>,
  \<open>framework_name\<close> is what the method \<^verbatim>\<open>self._framework()\<close> returns and
  \<open>framework_version\<close> what \<^verbatim>\<open>self._get_framework_version()\<close> returns.
\<close>

record Model =
  is_ModelPackage :: bool
  framework_name :: "string option"
  framework_version :: "string option"
  role :: "string option"
  model_package_arn :: "string option"
  sagemaker_session :: "Session option"
  inference_recommender_job_results :: json
  inference_recommendations :: json

record world =
  self :: Model
  session_calls :: "session_call list"
  logged :: "log_record list"

section \<open>The framework lookup table\<close>

text \<open>
  A key handed to \<^verbatim>\<open>dict.get\<close> is any hashable object. The table's keys are
  strings; \<^verbatim>\<open>self._framework\<close> without parentheses is a bound method object,
  which is equal to no string.
\<close>

datatype pykey =
    StrKey string
  | BoundMethod string

definition INFERENCE_RECOMMENDER_FRAMEWORK_MAPPING :: "(pykey \<times> string) list" where
  "INFERENCE_RECOMMENDER_FRAMEWORK_MAPPING =
     [(StrKey ''xgboost'', ''XGBOOST''),
      (StrKey ''sklearn'', ''SAGEMAKER-SCIKIT-LEARN''),
      (StrKey ''pytorch'', ''PYTORCH''),
      (StrKey ''tensorflow'', ''TENSORFLOW''),
      (StrKey ''mxnet'', ''MXNET'')]"

section \<open>The orchestration entry point\<close>

record right_size_args =
  sample_payload_url :: "string option"
  supported_content_types :: "string list option"
  supported_instance_types :: "string list option"
  job_name :: "string option"
  framework :: "string option"
  job_duration_in_seconds :: "int option"
  hyperparameter_ranges :: "parameter_range list option"
  phases :: "Phase list option"
  traffic_type :: "string option"
  max_invocations :: "int option"
  model_latency_thresholds :: "ModelLatencyThreshold list option"
  max_tests :: "int option"
  max_parallel_tests :: "int option"
  log_level :: "string option"

text \<open>Lines 124 and 125: the framework handed on.\<close>

definition derive_framework :: "Model \<Rightarrow> string option \<Rightarrow> string option" where
  "derive_framework slf framework_arg =
     (if \<not> truthy_str framework_arg \<and> truthy_str (framework_name slf)
      then dict_get INFERENCE_RECOMMENDER_FRAMEWORK_MAPPING (BoundMethod ''_framework'') framework_arg
      else framework_arg)"

text \<open>Lines 142 to 147: the job type and the line logged with it.\<close>

definition choose_job_type :: "json \<Rightarrow> json \<Rightarrow> json \<Rightarrow> json \<Rightarrow> string \<times> log_record" where
  "choose_job_type endpoint_configurations traffic_pattern stopping_conditions resource_limit =
     (if truthy endpoint_configurations \<or> truthy traffic_pattern
         \<or> truthy stopping_conditions \<or> truthy resource_limit
      then (''Advanced'', Info ''Advance Job parameters were specified. Running Advanced job...'')
      else (''Default'', Info ''Advance Job parameters were not specified. Running Default job...''))"

text \<open>
  Lines 149 to 177: the session is created when the caller has none
  (\<open>new_session\<close> stands for what \<^verbatim>\<open>_init_sagemaker_session_if_does_not_exist\<close>
  creates), the job is submitted and awaited, and the two result fields are stored.
  An exception leaves the world as it was when it was raised.
\<close>

definition submit_and_wait ::
  "Session \<Rightarrow> job_request \<Rightarrow> string option \<Rightarrow> world \<Rightarrow> (error + unit) \<times> world" where
  "submit_and_wait new_session req lvl w =
     (let session = (case sagemaker_session (self w) of None \<Rightarrow> new_session | Some s \<Rightarrow> s);
          w1 = w\<lparr>self := (self w)\<lparr>sagemaker_session := Some session\<rparr>\<rparr>;
          w2 = w1\<lparr>session_calls := session_calls w1 @ [CreateJob req]\<rparr>
      in case create_inference_recommendations_job session req of
           Inl e \<Rightarrow> (Inl e, w2)
         | Inr ret_name \<Rightarrow>
             (let w3 = w2\<lparr>session_calls := session_calls w2 @ [WaitForJob ret_name lvl]\<rparr>
              in case wait_for_inference_recommendations_job session ret_name lvl of
                   Inl e \<Rightarrow> (Inl e, w3)
                 | Inr results \<Rightarrow>
                     (let w4 = w3\<lparr>self := (self w3)\<lparr>inference_recommender_job_results := results\<rparr>\<rparr>
                      in case results of
                           JDict kvs \<Rightarrow>
                             (Inr (),
                              w4\<lparr>self := (self w4)\<lparr>inference_recommendations :=
                                  (case map_of kvs ''InferenceRecommendations'' of
                                     None \<Rightarrow> JNull | Some v \<Rightarrow> v)\<rparr>\<rparr>)
                         | _ \<Rightarrow> (Inl (AttributeError ''get''), w4))))"

definition right_size :: "Session \<Rightarrow> right_size_args \<Rightarrow> world \<Rightarrow> (error + unit) \<times> world" where
  "right_size new_session a w =
     (if \<not> is_ModelPackage (self w)
      then (Inl (ValueError ''right_size() is currently only supported with a registered model''), w)
      else
        (let framework' = derive_framework (self w) (framework a);
             framework_version' = framework_version (self w)
         in case convert_to_endpoint_configurations_json (hyperparameter_ranges a) of
              Inl e \<Rightarrow> (Inl e, w)
            | Inr endpoint_configurations \<Rightarrow>
                (let traffic_pattern = convert_to_traffic_pattern_json (traffic_type a) (phases a)
                 in case convert_to_stopping_conditions_json (max_invocations a) (model_latency_thresholds a) of
                      Inl e \<Rightarrow> (Inl e, w)
                    | Inr stopping_conditions \<Rightarrow>
                        (let resource_limit = convert_to_resource_limit_json (max_tests a) (max_parallel_tests a);
                             chosen = choose_job_type endpoint_configurations traffic_pattern
                                        stopping_conditions resource_limit;
                             w1 = w\<lparr>logged := logged w @ [snd chosen]\<rparr>;
                             req = \<lparr>req_role = role (self w1),
                                    req_job_name = job_name a,
                                    req_job_type = fst chosen,
                                    req_job_duration_in_seconds = job_duration_in_seconds a,
                                    req_model_package_version_arn = model_package_arn (self w1),
                                    req_framework = framework',
                                    req_framework_version = framework_version',
                                    req_sample_payload_url = sample_payload_url a,
                                    req_supported_content_types = supported_content_types a,
                                    req_supported_instance_types = supported_instance_types a,
                                    req_endpoint_configurations = endpoint_configurations,
                                    req_traffic_pattern = traffic_pattern,
                                    req_stopping_conditions = stopping_conditions,
                                    req_resource_limit = resource_limit\<rparr>
                         in submit_and_wait new_session req (log_level a) w1))))"

text \<open>The job requests a call has submitted, oldest first.\<close>

fun submitted :: "session_call list \<Rightarrow> job_request list" where
  "submitted [] = []"
| "submitted (CreateJob req # cs) = req # submitted cs"
| "submitted (WaitForJob n l # cs) = submitted cs"

section \<open>The deploy-time guard\<close>

text \<open>
  \<^verbatim>\<open>self.inference_recommendations[0]["EndpointConfiguration"][key]\<close>, evaluated
  once for each of the two keys.
\<close>

definition top_recommendation :: "Model \<Rightarrow> string \<Rightarrow> error + json" where
  "top_recommendation slf key =
     (case subscript_0 (inference_recommendations slf) of
        Inl e \<Rightarrow> Inl e
      | Inr r \<Rightarrow>
          (case subscript_key r ''EndpointConfiguration'' of
             Inl e \<Rightarrow> Inl e
           | Inr ec \<Rightarrow> subscript_key ec key))"

text \<open>
  The result is the raised exception, \<open>None\<close>, or the pair, together with the warnings
  logged. The two configuration arguments are objects of classes outside the module.
\<close>

definition check_inference_recommender_args ::
  "Model \<Rightarrow> string option \<Rightarrow> int option \<Rightarrow> string option \<Rightarrow> 's option \<Rightarrow> 'a option
     \<Rightarrow> (error + (json \<times> json) option) \<times> log_record list" where
  "check_inference_recommender_args slf instance_type initial_instance_count accelerator_type
       serverless_inference_config async_inference_config =
     (if truthy_str accelerator_type
      then (Inl (ValueError ''accelerator_type is not compatible with right_size().''), [])
      else if truthy_str instance_type \<or> truthy_int initial_instance_count
      then (Inr None,
            [Warning ''instance_type or initial_instance_count specified.Overriding right_size() recommendations.''])
      else if truthy_obj async_inference_config
      then (Inr None,
            [Warning ''async_inference_config is specified. Overriding right_size() recommendations.''])
      else if truthy_obj serverless_inference_config
      then (Inr None,
            [Warning ''serverless_inference_config is specified. Overriding right_size() recommendations.''])
      else
        (case top_recommendation slf ''InstanceType'' of
           Inl e \<Rightarrow> (Inl e, [])
         | Inr instance_type' \<Rightarrow>
             (case top_recommendation slf ''InitialInstanceCount'' of
                Inl e \<Rightarrow> (Inl e, [])
              | Inr initial_instance_count' \<Rightarrow>
                  (Inr (Some (instance_type', initial_instance_count')), []))))"

section \<open>The endpoint configurations as the specification describes them\<close>

text \<open>
  The specification's wording of the endpoint-configuration translator, to be compared
  with the loops above: each key of an entry other than \<^verbatim>\<open>instance_types\<close>
  becomes one descriptor with a name and a value list, and each candidate instance type
  of the entry yields one configuration document holding those descriptors.
\<close>

definition spec_range_descriptor :: "string \<times> CategoricalParameter \<Rightarrow> json" where
  "spec_range_descriptor kv =
     JDict [(''Name'', JStr (fst kv)), (''Value'', JList (map JStr (cp_values (snd kv))))]"

definition spec_remaining :: "parameter_range \<Rightarrow> parameter_range" where
  "spec_remaining entry = filter (\<lambda>kv. fst kv \<noteq> ''instance_types'') entry"

definition spec_configuration :: "parameter_range \<Rightarrow> string \<Rightarrow> json" where
  "spec_configuration remaining instance_type =
     JDict [(''EnvironmentParameterRanges'',
               JDict [(''CategoricalParameterRanges'',
                         JList (map spec_range_descriptor remaining))]),
            (''InstanceType'', JStr instance_type)]"

definition spec_entry_configurations :: "parameter_range \<Rightarrow> json list" where
  "spec_entry_configurations entry =
     (case map_of entry ''instance_types'' of
        None \<Rightarrow> []
      | Some param \<Rightarrow> map (spec_configuration (spec_remaining entry)) (cp_values param))"

section \<open>Concrete callers, sessions and arguments\<close>

text \<open>
  The keyword defaults of \<^verbatim>\<open>right_size\<close> (every parameter \<^verbatim>\<open>None\<close> but
  \<^verbatim>\<open>log_level\<close>), a session whose job completes with one recommendation, and a
  registered model with a detected framework that has not called
  \<^verbatim>\<open>right_size\<close> yet.
\<close>

definition default_args :: right_size_args where
  "default_args =
     \<lparr>sample_payload_url = None, supported_content_types = None,
      supported_instance_types = None, job_name = None, framework = None,
      job_duration_in_seconds = None, hyperparameter_ranges = None, phases = None,
      traffic_type = None, max_invocations = None, model_latency_thresholds = None,
      max_tests = None, max_parallel_tests = None, log_level = Some ''Verbose''\<rparr>"

definition example_session :: Session where
  "example_session =
     \<lparr>create_inference_recommendations_job = (\<lambda>req. Inr ''job-1''),
      wait_for_inference_recommendations_job =
        (\<lambda>name lvl. Inr (JDict [(''InferenceRecommendations'',
                                  JList [JDict [(''EndpointConfiguration'',
                                                   JDict [(''InstanceType'', JStr ''ml.c5.xlarge''),
                                                          (''InitialInstanceCount'', JInt 2)])]])]))\<rparr>"

definition example_model :: Model where
  "example_model =
     \<lparr>is_ModelPackage = True, framework_name = Some ''xgboost'',
      framework_version = Some ''1.5-1'', role = Some ''arn:aws:iam::role/example'',
      model_package_arn = Some ''arn:aws:sagemaker:model-package/example/1'',
      sagemaker_session = None, inference_recommender_job_results = JNull,
      inference_recommendations = JNull\<rparr>"

definition example_world :: world where
  "example_world = \<lparr>self = example_model, session_calls = [], logged = []\<rparr>"

section \<open>Properties of the endpoint-configuration translator\<close>

lemma parameter_ranges_loop_eq:
  "parameter_ranges_loop items acc = Inr (acc @ map spec_range_descriptor items)"
proof (induction items arbitrary: acc)
  case Nil
  show ?case by simp
next
  case (Cons kv items)
  obtain name param where kv: "kv = (name, param)" by (cases kv)
  have pop: "dict_pop ''Values'' (as_json_range param name)
               = Inr (JList (map JStr (cp_values param)), [(''Name'', JStr name)])"
    by (simp add: dict_pop_def as_json_range_def)
  have put: "dict_set ''Value'' v [(''Name'', JStr name)] = [(''Name'', JStr name), (''Value'', v)]" for v
    by (simp add: dict_set_def)
  show ?case
    by (simp add: kv pop put Cons.IH spec_range_descriptor_def)
qed

lemma instance_types_loop_eq:
  "instance_types_loop its pr acc = Inr (acc @ map (spec_configuration pr) its)"
  by (induction its arbitrary: acc)
     (simp_all add: parameter_ranges_loop_eq spec_configuration_def)

lemma hyperparameter_ranges_loop_step:
  assumes "map_of entry ''instance_types'' = Some param"
  shows "hyperparameter_ranges_loop (entry # rest) acc
           = hyperparameter_ranges_loop rest (acc @ spec_entry_configurations entry)"
  using assms
  by (simp add: dict_pop_def instance_types_loop_eq spec_entry_configurations_def
        spec_remaining_def)

lemma hyperparameter_ranges_loop_eq:
  "\<forall>entry \<in> set hr. map_of entry ''instance_types'' \<noteq> None \<Longrightarrow>
   hyperparameter_ranges_loop hr acc = Inr (acc @ concat (map spec_entry_configurations hr))"
proof (induction hr arbitrary: acc)
  case Nil
  show ?case by simp
next
  case (Cons entry rest)
  then obtain param where p: "map_of entry ''instance_types'' = Some param" by auto
  from Cons show ?case
    by (simp only: hyperparameter_ranges_loop_step[OF p]) simp
qed

lemma hyperparameter_ranges_loop_missing:
  "\<exists>entry \<in> set hr. map_of entry ''instance_types'' = None \<Longrightarrow>
   hyperparameter_ranges_loop hr acc
     = Inl (ValueError ''instance_type must be defined as a hyperparameter_range'')"
proof (induction hr arbitrary: acc)
  case Nil
  then show ?case by simp
next
  case (Cons entry rest)
  show ?case
  proof (cases "map_of entry ''instance_types''")
    case None
    then show ?thesis by simp
  next
    case (Some param)
    with Cons.prems have "\<exists>e \<in> set rest. map_of e ''instance_types'' = None" by auto
    then show ?thesis
      by (simp only: hyperparameter_ranges_loop_step[OF Some] Cons.IH)
  qed
qed

text \<open>
  The number of documents an entry yields is the number of its candidate instance types,
  and every document carries one descriptor per remaining key.
\<close>

lemma spec_entry_configurations_length:
  "map_of entry ''instance_types'' = Some param \<Longrightarrow>
   length (spec_entry_configurations entry) = length (cp_values param)"
  by (simp add: spec_entry_configurations_def)

lemma spec_configuration_descriptors:
  "spec_configuration remaining t
     = JDict [(''EnvironmentParameterRanges'', JDict [(''CategoricalParameterRanges'', JList ds)]),
              (''InstanceType'', JStr t')]
   \<Longrightarrow> length ds = length remaining \<and> t' = t"
  by (auto simp: spec_configuration_def)

text \<open>
  C5. For a non-empty list of hyperparameter ranges whose entries all have the key
  \<^verbatim>\<open>instance_types\<close>, the translator returns, entry after entry and instance type
  after instance type, exactly one configuration document
  \<^verbatim>\<open>{EnvironmentParameterRanges: {CategoricalParameterRanges: [...]}, InstanceType}\<close>
  whose range list has one \<^verbatim>\<open>{Name, Value}\<close> descriptor per remaining key of the
  entry; for an absent or empty input it returns null.
\<close>

theorem convert_to_endpoint_configurations_json_documents:
  "convert_to_endpoint_configurations_json None = Inr JNull
   \<and> convert_to_endpoint_configurations_json (Some []) = Inr JNull
   \<and> (hr \<noteq> [] \<and> (\<forall>entry \<in> set hr. map_of entry ''instance_types'' \<noteq> None) \<longrightarrow>
        convert_to_endpoint_configurations_json (Some hr)
          = Inr (JList (concat (map spec_entry_configurations hr))))"
  by (simp add: convert_to_endpoint_configurations_json_def hyperparameter_ranges_loop_eq)

theorem convert_to_endpoint_configurations_json_documents_witness:
  "convert_to_endpoint_configurations_json
     (Some [[(''instance_types'', \<lparr>cp_values = [''ml.c5.xlarge'', ''ml.c5.2xlarge'']\<rparr>),
             (''OMP_NUM_THREADS'', \<lparr>cp_values = [''1'', ''2'', ''3'']\<rparr>)]])
   = Inr (JList
       [JDict [(''EnvironmentParameterRanges'',
                  JDict [(''CategoricalParameterRanges'',
                            JList [JDict [(''Name'', JStr ''OMP_NUM_THREADS''),
                                          (''Value'', JList [JStr ''1'', JStr ''2'', JStr ''3''])]])]),
               (''InstanceType'', JStr ''ml.c5.xlarge'')],
        JDict [(''EnvironmentParameterRanges'',
                  JDict [(''CategoricalParameterRanges'',
                            JList [JDict [(''Name'', JStr ''OMP_NUM_THREADS''),
                                          (''Value'', JList [JStr ''1'', JStr ''2'', JStr ''3''])]])]),
               (''InstanceType'', JStr ''ml.c5.2xlarge'')]])"
  using convert_to_endpoint_configurations_json_documents
          [of "[[(''instance_types'', \<lparr>cp_values = [''ml.c5.xlarge'', ''ml.c5.2xlarge'']\<rparr>),
                 (''OMP_NUM_THREADS'', \<lparr>cp_values = [''1'', ''2'', ''3'']\<rparr>)]]"]
  by (simp add: spec_entry_configurations_def spec_configuration_def spec_remaining_def
        spec_range_descriptor_def)

text \<open>
  C6. When at least one entry of the hyperparameter ranges lacks the key
  \<^verbatim>\<open>instance_types\<close>, the translator raises the ValueError of line 245 and returns
  no fragment, wherever the entry stands in the list.
\<close>

theorem convert_to_endpoint_configurations_json_missing_instance_types:
  assumes "\<exists>entry \<in> set hr. map_of entry ''instance_types'' = None"
  shows "convert_to_endpoint_configurations_json (Some hr)
           = Inl (ValueError ''instance_type must be defined as a hyperparameter_range'')"
proof -
  from assms have "hr \<noteq> []" by auto
  with assms show ?thesis
    by (simp add: convert_to_endpoint_configurations_json_def hyperparameter_ranges_loop_missing)
qed

theorem convert_to_endpoint_configurations_json_missing_instance_types_witness:
  "convert_to_endpoint_configurations_json
     (Some [[(''instance_types'', \<lparr>cp_values = [''ml.c5.xlarge'']\<rparr>)],
            [(''OMP_NUM_THREADS'', \<lparr>cp_values = [''1'', ''2'']\<rparr>)]])
   = Inl (ValueError ''instance_type must be defined as a hyperparameter_range'')"
  by (rule convert_to_endpoint_configurations_json_missing_instance_types) simp

section \<open>Properties of the other three translators\<close>

text \<open>
  C10. The resource-limit translator tells present from absent by truth value, not by
  \<^verbatim>\<open>None\<close>: for both arguments supplied as zero it returns null, exactly as
  for both absent; whenever at least one argument is a nonzero number it returns
  \<^verbatim>\<open>{MaxNumberOfTests: max_tests, MaxParallelOfTests: max_parallel_tests}\<close>,
  an absent member staying null inside the mapping.
\<close>

theorem convert_to_resource_limit_json_truthiness:
  "convert_to_resource_limit_json (Some 0) (Some 0) = JNull
   \<and> convert_to_resource_limit_json None None = JNull
   \<and> ((\<exists>n. mt = Some n \<and> n \<noteq> 0) \<or> (\<exists>n. mpt = Some n \<and> n \<noteq> 0) \<longrightarrow>
         convert_to_resource_limit_json mt mpt
           = JDict [(''MaxNumberOfTests'', py_int mt),
                    (''MaxParallelOfTests'', py_int mpt)])"
  by (auto simp: convert_to_resource_limit_json_def)

theorem convert_to_resource_limit_json_truthiness_witness:
  "convert_to_resource_limit_json (Some 5) None
     = JDict [(''MaxNumberOfTests'', JInt 5), (''MaxParallelOfTests'', JNull)]
   \<and> convert_to_resource_limit_json (Some 0) (Some 2)
     = JDict [(''MaxNumberOfTests'', JInt 0), (''MaxParallelOfTests'', JInt 2)]
   \<and> convert_to_resource_limit_json (Some 0) (Some 0) = convert_to_resource_limit_json None None"
  using convert_to_resource_limit_json_truthiness [of "Some 5" None]
        convert_to_resource_limit_json_truthiness [of "Some 0" "Some 2"]
  by simp

text \<open>
  The claim C7 as stated, that the traffic type of the fragment is the given one whenever
  one was supplied, fails for the empty string: it is supplied, and the fragment carries
  \<^verbatim>\<open>PHASES\<close>.
\<close>

theorem convert_to_traffic_pattern_json_counterexample:
  "subscript_key
     (convert_to_traffic_pattern_json (Some '''')
        (Some [\<lparr>duration_in_seconds = 120, initial_number_of_users = 1, spawn_rate = 1\<rparr>]))
     ''TrafficType'' = Inr (JStr ''PHASES'')
   \<and> JStr ''PHASES'' \<noteq> py_str (Some '''')"
  by (simp add: convert_to_traffic_pattern_json_def)

text \<open>
  C7, amended. The traffic-pattern translator returns null when the phases are absent or
  empty, and otherwise \<^verbatim>\<open>{Phases: [each phase's wire form], TrafficType}\<close>,
  where the traffic type is the given one if it is a non-empty string and the constant
  \<^verbatim>\<open>PHASES\<close> if it is absent or empty.
\<close>

theorem convert_to_traffic_pattern_json_cases:
  "(ph = None \<or> ph = Some [] \<longrightarrow> convert_to_traffic_pattern_json tt ph = JNull)
   \<and> (ph = Some ps \<and> ps \<noteq> [] \<longrightarrow>
        convert_to_traffic_pattern_json tt ph
          = JDict [(''Phases'', JList (map Phase_to_json ps)),
                   (''TrafficType'',
                      JStr (case tt of
                              None \<Rightarrow> ''PHASES''
                            | Some t \<Rightarrow> if t = [] then ''PHASES'' else t))])"
  by (cases tt) (auto simp: convert_to_traffic_pattern_json_def)

theorem convert_to_traffic_pattern_json_cases_witness:
  "convert_to_traffic_pattern_json None (Some []) = JNull
   \<and> convert_to_traffic_pattern_json None
        (Some [\<lparr>duration_in_seconds = 120, initial_number_of_users = 1, spawn_rate = 1\<rparr>,
               \<lparr>duration_in_seconds = 60, initial_number_of_users = 5, spawn_rate = 2\<rparr>])
      = JDict [(''Phases'',
                  JList [JDict [(''DurationInSeconds'', JInt 120), (''InitialNumberOfUsers'', JInt 1),
                                (''SpawnRate'', JInt 1)],
                         JDict [(''DurationInSeconds'', JInt 60), (''InitialNumberOfUsers'', JInt 5),
                                (''SpawnRate'', JInt 2)]]),
               (''TrafficType'', JStr ''PHASES'')]
   \<and> subscript_key
        (convert_to_traffic_pattern_json (Some ''STAIRS'')
           (Some [\<lparr>duration_in_seconds = 120, initial_number_of_users = 1, spawn_rate = 1\<rparr>]))
        ''TrafficType'' = Inr (JStr ''STAIRS'')"
  using convert_to_traffic_pattern_json_cases [where ph = "Some []" and tt = None]
        convert_to_traffic_pattern_json_cases
          [where ph = "Some [\<lparr>duration_in_seconds = 120, initial_number_of_users = 1, spawn_rate = 1\<rparr>,
                            \<lparr>duration_in_seconds = 60, initial_number_of_users = 5, spawn_rate = 2\<rparr>]"
             and ps = "[\<lparr>duration_in_seconds = 120, initial_number_of_users = 1, spawn_rate = 1\<rparr>,
                        \<lparr>duration_in_seconds = 60, initial_number_of_users = 5, spawn_rate = 2\<rparr>]"
             and tt = None]
        convert_to_traffic_pattern_json_cases
          [where ph = "Some [\<lparr>duration_in_seconds = 120, initial_number_of_users = 1, spawn_rate = 1\<rparr>]"
             and ps = "[\<lparr>duration_in_seconds = 120, initial_number_of_users = 1, spawn_rate = 1\<rparr>]"
             and tt = "Some ''STAIRS''"]
  by (simp add: Phase_to_json_def)

text \<open>
  The claim C3 as stated fails at two inputs. With a zero invocation count and an empty
  threshold list, both supplied, the translator returns null and no mapping. With an
  invocation count alone, the thresholds left at their default \<^verbatim>\<open>None\<close>, the
  list comprehension of line 293 iterates \<^verbatim>\<open>None\<close> and the call raises
  TypeError.
\<close>

theorem convert_to_stopping_conditions_json_counterexample:
  "convert_to_stopping_conditions_json (Some 0) (Some []) = Inr JNull
   \<and> convert_to_stopping_conditions_json (Some 10) None
       = Inl (TypeError ''NoneType object is not iterable'')"
  by (simp add: convert_to_stopping_conditions_json_def)

text \<open>
  C3, amended. The stopping-conditions translator returns null when the invocation count
  is absent or zero and the thresholds are absent or empty. When the thresholds are a
  list, and that list is non-empty or the invocation count is a nonzero number, it
  returns \<^verbatim>\<open>{MaxInvocations, ModelLatencyThresholds: [...]}\<close> with the count as
  given (null when absent) and each threshold as
  \<^verbatim>\<open>{Percentile, ValueInMilliseconds}\<close>.
\<close>

theorem convert_to_stopping_conditions_json_cases:
  "((mi = None \<or> mi = Some 0)
      \<and> (mlt = None \<or> mlt = Some []) \<longrightarrow>
        convert_to_stopping_conditions_json mi mlt = Inr JNull)
   \<and> (mlt = Some ts \<and> (ts \<noteq> [] \<or> (\<exists>n. mi = Some n \<and> n \<noteq> 0)) \<longrightarrow>
        convert_to_stopping_conditions_json mi mlt
          = Inr (JDict [(''MaxInvocations'', py_int mi),
                        (''ModelLatencyThresholds'',
                           JList (map ModelLatencyThreshold_to_json ts))]))"
  by (auto simp: convert_to_stopping_conditions_json_def)

theorem convert_to_stopping_conditions_json_cases_witness:
  "convert_to_stopping_conditions_json None None = Inr JNull
   \<and> convert_to_stopping_conditions_json None
        (Some [\<lparr>percentile = ''P95'', value_in_milliseconds = 100\<rparr>])
      = Inr (JDict [(''MaxInvocations'', JNull),
                    (''ModelLatencyThresholds'',
                       JList [JDict [(''Percentile'', JStr ''P95''),
                                     (''ValueInMilliseconds'', JInt 100)]])])
   \<and> convert_to_stopping_conditions_json (Some 300) (Some [])
      = Inr (JDict [(''MaxInvocations'', JInt 300), (''ModelLatencyThresholds'', JList [])])"
  using convert_to_stopping_conditions_json_cases [of None None "[]"]
        convert_to_stopping_conditions_json_cases
          [of None "Some [\<lparr>percentile = ''P95'', value_in_milliseconds = 100\<rparr>]"
              "[\<lparr>percentile = ''P95'', value_in_milliseconds = 100\<rparr>]"]
        convert_to_stopping_conditions_json_cases [of "Some 300" "Some []" "[]"]
  by (simp add: ModelLatencyThreshold_to_json_def)

section \<open>Properties of the orchestration entry point\<close>

lemma submitted_append: "submitted (xs @ ys) = submitted xs @ submitted ys"
  by (induction xs rule: submitted.induct) simp_all

lemma submit_and_wait_submitted:
  "submitted (session_calls (snd (submit_and_wait ns req lvl w)))
     = submitted (session_calls w) @ [req]"
  by (simp add: submit_and_wait_def Let_def submitted_append split: sum.split json.split)

text \<open>
  The table lookup of line 125 never finds its key, so the framework handed on is always
  the explicit argument.
\<close>

lemma derive_framework_unchanged: "derive_framework slf f = f"
  by (simp add: derive_framework_def dict_get_def INFERENCE_RECOMMENDER_FRAMEWORK_MAPPING_def)

text \<open>
  Of the four fragments only the endpoint configurations can be non-null and false: the
  other three are null or a mapping with two keys.
\<close>

lemma truthy_endpoint_configurations:
  "convert_to_endpoint_configurations_json hr = Inr ec \<Longrightarrow>
   truthy ec = (ec \<noteq> JNull \<and> ec \<noteq> JList [])"
  by (auto simp: convert_to_endpoint_configurations_json_def split: if_splits sum.splits)

lemma truthy_traffic_pattern:
  "truthy (convert_to_traffic_pattern_json tt ph) = (convert_to_traffic_pattern_json tt ph \<noteq> JNull)"
  by (simp add: convert_to_traffic_pattern_json_def)

lemma truthy_stopping_conditions:
  "convert_to_stopping_conditions_json mi mlt = Inr sc \<Longrightarrow> truthy sc = (sc \<noteq> JNull)"
  by (auto simp: convert_to_stopping_conditions_json_def split: if_splits option.splits)

lemma truthy_resource_limit:
  "truthy (convert_to_resource_limit_json mt mpt) = (convert_to_resource_limit_json mt mpt \<noteq> JNull)"
  by (simp add: convert_to_resource_limit_json_def)

text \<open>
  C8. When the caller is not a registered-model reference, \<^verbatim>\<open>right_size\<close>
  fails with the ValueError of line 122 and leaves the world as it found it: no call to
  the session is recorded, no line is logged and no field of the caller is changed.
\<close>

theorem right_size_requires_registered_model:
  "\<not> is_ModelPackage (self w) \<Longrightarrow>
   right_size ns a w
     = (Inl (ValueError ''right_size() is currently only supported with a registered model''), w)"
  by (simp add: right_size_def)

theorem right_size_requires_registered_model_witness:
  "right_size example_session default_args
     (example_world\<lparr>self := example_model\<lparr>is_ModelPackage := False\<rparr>\<rparr>)
   = (Inl (ValueError ''right_size() is currently only supported with a registered model''),
      example_world\<lparr>self := example_model\<lparr>is_ModelPackage := False\<rparr>\<rparr>)"
  by (rule right_size_requires_registered_model) simp

text \<open>
  The claim C1 as stated, that the job type is Advanced exactly when a translator returns
  a non-null fragment, fails when the only entry of the hyperparameter ranges has an
  \<^verbatim>\<open>instance_types\<close> parameter without candidate values: the
  endpoint-configuration translator returns the empty list, which is not null, and the
  job is submitted as Default.
\<close>

theorem right_size_job_type_counterexample:
  "convert_to_endpoint_configurations_json (Some [[(''instance_types'', \<lparr>cp_values = []\<rparr>)]])
     = Inr (JList [])
   \<and> JList [] \<noteq> JNull
   \<and> map req_job_type
        (submitted (session_calls (snd (right_size example_session
           (default_args\<lparr>hyperparameter_ranges := Some [[(''instance_types'', \<lparr>cp_values = []\<rparr>)]]\<rparr>)
           example_world))))
      = [''Default'']"
  by (simp add: right_size_def convert_to_endpoint_configurations_json_def dict_pop_def
        convert_to_traffic_pattern_json_def convert_to_stopping_conditions_json_def
        convert_to_resource_limit_json_def choose_job_type_def submit_and_wait_submitted
        default_args_def example_world_def example_model_def Let_def)

text \<open>
  C1, amended. For a call on a registered-model caller whose translators all return, the
  one job submitted has type Advanced if and only if at least one fragment is true in
  Python's sense: the endpoint configurations are a non-empty list, or the traffic
  pattern, the stopping conditions or the resource limit is non-null; otherwise the type
  is Default.
\<close>

theorem right_size_job_type:
  assumes "is_ModelPackage (self w)"
    and "convert_to_endpoint_configurations_json (hyperparameter_ranges a) = Inr ec"
    and "convert_to_stopping_conditions_json (max_invocations a) (model_latency_thresholds a) = Inr sc"
  shows "map req_job_type (submitted (session_calls (snd (right_size ns a w))))
           = map req_job_type (submitted (session_calls w))
             @ [if (ec \<noteq> JNull \<and> ec \<noteq> JList [])
                   \<or> convert_to_traffic_pattern_json (traffic_type a) (phases a) \<noteq> JNull
                   \<or> sc \<noteq> JNull
                   \<or> convert_to_resource_limit_json (max_tests a) (max_parallel_tests a) \<noteq> JNull
                then ''Advanced'' else ''Default'']"
  using assms truthy_endpoint_configurations[OF assms(2)] truthy_stopping_conditions[OF assms(3)]
  by (simp add: right_size_def Let_def submit_and_wait_submitted choose_job_type_def
        truthy_traffic_pattern truthy_resource_limit)

theorem right_size_job_type_witness:
  "map req_job_type
     (submitted (session_calls (snd (right_size example_session
        (default_args\<lparr>phases := Some [\<lparr>duration_in_seconds = 120, initial_number_of_users = 1,
                                      spawn_rate = 1\<rparr>]\<rparr>)
        example_world))))
     = [''Advanced'']
   \<and> map req_job_type
        (submitted (session_calls (snd (right_size example_session default_args example_world))))
     = [''Default'']"
  using right_size_job_type
          [of example_world
              "default_args\<lparr>phases := Some [\<lparr>duration_in_seconds = 120, initial_number_of_users = 1,
                                            spawn_rate = 1\<rparr>]\<rparr>"
              JNull JNull example_session]
        right_size_job_type [of example_world default_args JNull JNull example_session]
  by (simp add: example_world_def example_model_def default_args_def
        convert_to_endpoint_configurations_json_def convert_to_stopping_conditions_json_def
        convert_to_traffic_pattern_json_def convert_to_resource_limit_json_def)

text \<open>
  C4. The claim says that with no explicit framework and a detected one the submitted
  framework comes from the lookup table. The code looks up the bound method
  \<^verbatim>\<open>self._framework\<close> instead of the name the method returns: for the default
  arguments and a caller whose detected framework is \<^verbatim>\<open>xgboost\<close> the
  framework submitted is \<^verbatim>\<open>None\<close>, not \<^verbatim>\<open>XGBOOST\<close>.
\<close>

theorem right_size_framework_not_mapped:
  "framework default_args = None
   \<and> framework_name (self example_world) = Some ''xgboost''
   \<and> map req_framework
        (submitted (session_calls (snd (right_size example_session default_args example_world))))
      = [None]"
  by (simp add: right_size_def convert_to_endpoint_configurations_json_def
        convert_to_traffic_pattern_json_def convert_to_stopping_conditions_json_def
        convert_to_resource_limit_json_def choose_job_type_def submit_and_wait_submitted
        derive_framework_unchanged
        default_args_def example_world_def example_model_def Let_def)

section \<open>Properties of the deploy-time guard\<close>

text \<open>
  The claim C2 as stated fails at two inputs. An accelerator type given as the empty
  string is non-null and raises nothing: with an instance type beside it the guard warns
  and returns \<^verbatim>\<open>None\<close>. With no argument given and an empty list of
  recommendations the guard returns no pair but raises IndexError.
\<close>

theorem check_inference_recommender_args_counterexample:
  "check_inference_recommender_args example_model (Some ''ml.m5.large'') None (Some '''')
       (None :: unit option) (None :: unit option)
     = (Inr None,
        [Warning ''instance_type or initial_instance_count specified.Overriding right_size() recommendations.''])
   \<and> fst (check_inference_recommender_args (example_model\<lparr>inference_recommendations := JList []\<rparr>)
            None None None (None :: unit option) (None :: unit option))
     = Inl (IndexError ''list index out of range'')"
  by (simp add: check_inference_recommender_args_def top_recommendation_def example_model_def)

text \<open>
  C2, amended. The guard checks its rules in this order, each test being a truth-value
  test: a non-empty accelerator type raises the ValueError of line 211; otherwise a
  non-empty instance type or a nonzero initial instance count gives \<^verbatim>\<open>None\<close>
  after a warning; otherwise an asynchronous inference configuration gives
  \<^verbatim>\<open>None\<close> after a warning; otherwise a serverless inference configuration
  gives \<^verbatim>\<open>None\<close> after a warning; otherwise, when the first recommendation
  has an endpoint configuration with both keys, the guard returns the pair of its
  instance type and initial instance count.
\<close>

theorem check_inference_recommender_args_rules:
  "(truthy_str acc \<longrightarrow>
      check_inference_recommender_args slf it iic acc sic aic
        = (Inl (ValueError ''accelerator_type is not compatible with right_size().''), []))
   \<and> (\<not> truthy_str acc \<and> (truthy_str it \<or> truthy_int iic) \<longrightarrow>
      check_inference_recommender_args slf it iic acc sic aic
        = (Inr None,
           [Warning ''instance_type or initial_instance_count specified.Overriding right_size() recommendations.'']))
   \<and> (\<not> truthy_str acc \<and> \<not> truthy_str it \<and> \<not> truthy_int iic \<and> aic \<noteq> None \<longrightarrow>
      check_inference_recommender_args slf it iic acc sic aic
        = (Inr None,
           [Warning ''async_inference_config is specified. Overriding right_size() recommendations.'']))
   \<and> (\<not> truthy_str acc \<and> \<not> truthy_str it \<and> \<not> truthy_int iic \<and> aic = None \<and> sic \<noteq> None \<longrightarrow>
      check_inference_recommender_args slf it iic acc sic aic
        = (Inr None,
           [Warning ''serverless_inference_config is specified. Overriding right_size() recommendations.'']))
   \<and> (\<not> truthy_str acc \<and> \<not> truthy_str it \<and> \<not> truthy_int iic \<and> aic = None \<and> sic = None
        \<and> inference_recommendations slf = JList (JDict r # rs)
        \<and> map_of r ''EndpointConfiguration'' = Some (JDict ec)
        \<and> map_of ec ''InstanceType'' = Some t
        \<and> map_of ec ''InitialInstanceCount'' = Some c \<longrightarrow>
      check_inference_recommender_args slf it iic acc sic aic = (Inr (Some (t, c)), []))"
  by (cases aic; cases sic)
     (simp_all add: check_inference_recommender_args_def top_recommendation_def)

theorem check_inference_recommender_args_rules_witness:
  "fst (check_inference_recommender_args example_model None None (Some ''ml.eia1.medium'')
          (None :: unit option) (None :: unit option))
     = Inl (ValueError ''accelerator_type is not compatible with right_size().'')
   \<and> fst (check_inference_recommender_args example_model (Some ''ml.m5.large'') None None
          (None :: unit option) (None :: unit option)) = Inr None
   \<and> fst (check_inference_recommender_args example_model None None None
          (None :: unit option) (Some ())) = Inr None
   \<and> fst (check_inference_recommender_args example_model None None None
          (Some ()) (None :: unit option)) = Inr None
   \<and> check_inference_recommender_args
        (example_model\<lparr>inference_recommendations :=
           JList [JDict [(''EndpointConfiguration'',
                            JDict [(''InstanceType'', JStr ''ml.c5.xlarge''),
                                   (''InitialInstanceCount'', JInt 2)])]]\<rparr>)
        None None None (None :: unit option) (None :: unit option)
     = (Inr (Some (JStr ''ml.c5.xlarge'', JInt 2)), [])"
  using check_inference_recommender_args_rules
          [where acc = "Some ''ml.eia1.medium''" and slf = example_model and it = None
             and iic = None and sic = "None :: unit option" and aic = "None :: unit option"]
        check_inference_recommender_args_rules
          [where acc = None and slf = example_model and it = "Some ''ml.m5.large''"
             and iic = None and sic = "None :: unit option" and aic = "None :: unit option"]
        check_inference_recommender_args_rules
          [where acc = None and slf = example_model and it = None
             and iic = None and sic = "None :: unit option" and aic = "Some ()"]
        check_inference_recommender_args_rules
          [where acc = None and slf = example_model and it = None
             and iic = None and sic = "Some ()" and aic = "None :: unit option"]
        check_inference_recommender_args_rules
          [where acc = None and it = None and iic = None
             and sic = "None :: unit option" and aic = "None :: unit option"
             and slf = "example_model\<lparr>inference_recommendations :=
                          JList [JDict [(''EndpointConfiguration'',
                                           JDict [(''InstanceType'', JStr ''ml.c5.xlarge''),
                                                  (''InitialInstanceCount'', JInt 2)])]]\<rparr>"
             and r = "[(''EndpointConfiguration'',
                         JDict [(''InstanceType'', JStr ''ml.c5.xlarge''),
                                (''InitialInstanceCount'', JInt 2)])]"
             and rs = "[]"
             and ec = "[(''InstanceType'', JStr ''ml.c5.xlarge''), (''InitialInstanceCount'', JInt 2)]"
             and t = "JStr ''ml.c5.xlarge''" and c = "JInt 2"]
  by simp

text \<open>
  C9. With no argument given, the access \<^verbatim>\<open>inference_recommendations[0]\<close>
  of line 229 fails when the caller's recommendations are \<^verbatim>\<open>None\<close>
  (TypeError) or the empty list (IndexError). The branches that return
  \<^verbatim>\<open>None\<close> never reach the access: whatever the recommendations are, they
  return \<^verbatim>\<open>None\<close>.
\<close>

theorem check_inference_recommender_args_unguarded_index:
  "(inference_recommendations slf = JNull \<longrightarrow>
      check_inference_recommender_args slf None None None (None :: 's option) (None :: 'a option)
        = (Inl (TypeError ''object is not subscriptable''), []))
   \<and> (inference_recommendations slf = JList [] \<longrightarrow>
      check_inference_recommender_args slf None None None (None :: 's option) (None :: 'a option)
        = (Inl (IndexError ''list index out of range''), []))
   \<and> (\<not> truthy_str acc \<and> (truthy_str it \<or> truthy_int iic \<or> aic \<noteq> None \<or> sic \<noteq> None) \<longrightarrow>
      fst (check_inference_recommender_args (slf\<lparr>inference_recommendations := recs\<rparr>)
             it iic acc (sic :: 's option) (aic :: 'a option)) = Inr None)"
  by (cases aic; cases sic)
     (simp_all add: check_inference_recommender_args_def top_recommendation_def)

theorem check_inference_recommender_args_unguarded_index_witness:
  "check_inference_recommender_args example_model None None None
       (None :: unit option) (None :: unit option)
     = (Inl (TypeError ''object is not subscriptable''), [])
   \<and> check_inference_recommender_args (example_model\<lparr>inference_recommendations := JList []\<rparr>)
       None None None (None :: unit option) (None :: unit option)
     = (Inl (IndexError ''list index out of range''), [])
   \<and> fst (check_inference_recommender_args (example_model\<lparr>inference_recommendations := JList []\<rparr>)
            (Some ''ml.m5.large'') None None (None :: unit option) (None :: unit option))
     = Inr None"
  using check_inference_recommender_args_unguarded_index
          [where slf = example_model and 's = unit and 'a = unit and acc = None
             and it = "Some ''ml.m5.large''" and iic = None and aic = None and sic = None
             and recs = "JList []"]
        check_inference_recommender_args_unguarded_index
          [where slf = "example_model\<lparr>inference_recommendations := JList []\<rparr>"
             and 's = unit and 'a = unit and acc = None
             and it = "Some ''ml.m5.large''" and iic = None and aic = None and sic = None
             and recs = "JList []"]
  by (simp add: example_model_def)

end
